theory Spec2Isabelle
  imports Complex_Main
begin

section \<open>The worker of webchanges: \<^verbatim>\<open>run_jobs\<close> and \<^verbatim>\<open>job_runner\<close> (worker.py)\<close>

text \<open>
  The development embeds \<^verbatim>\<open>webchanges/worker.py\<close>. The module has one entry point,
  \<^verbatim>\<open>run_jobs(urlwatcher)\<close>, with the nested functions \<^verbatim>\<open>job_runner\<close> and
  \<^verbatim>\<open>get_virt_mem\<close>. What the worker calls but does not define (the job state of
  handler.py, the snapshot store, the fetch of a job, difflib, psutil, os) is either a
  parameter of the model or a definition marked as modelled from the specification.
\<close>

subsection \<open>Data\<close>

text \<open>A snapshot of the store: the tuple \<^verbatim>\<open>(data, timestamp, tries, etag)\<close>.\<close>

record Snapshot =
  data :: string
  timestamp :: real
  tries_stored :: int
  etag :: string

text \<open>
  The fields of a job that the worker reads: \<^verbatim>\<open>index_number\<close>, \<^verbatim>\<open>max_tries\<close>
  (\<^verbatim>\<open>None\<close> when unset), the class attribute \<^verbatim>\<open>__is_browser__\<close> and the result of
  \<^verbatim>\<open>get_guid()\<close>.
\<close>

record JobBase =
  index_number :: int
  guid :: string
  max_tries :: "int option"
  is_browser :: bool

text \<open>The exception captured in a job state; the worker only asks whether it is a
  \<^verbatim>\<open>NotModifiedError\<close>.\<close>

datatype exn = NotModifiedError | FetchError string

text \<open>The attributes of \<^verbatim>\<open>JobState\<close> that the worker reads and writes.
  \<^verbatim>\<open>history_dic_snapshots\<close> is a dict from data to snapshot: an association list in
  insertion order, whose keys are distinct (\<^verbatim>\<open>keys()\<close> is \<open>map fst\<close>, \<^verbatim>\<open>len\<close> is
  \<open>length\<close>, \<^verbatim>\<open>d[k]\<close> is \<open>map_of d k\<close>).\<close>

record JobState =
  job :: JobBase
  old_data :: string
  old_timestamp :: real
  old_etag :: string
  history_dic_snapshots :: "(string \<times> Snapshot) list"
  new_data :: string
  new_timestamp :: real
  new_etag :: string
  exception :: "exn option"
  error_ignored :: bool
  tries :: int

text \<open>The four report methods \<^verbatim>\<open>report.new\<close>, \<^verbatim>\<open>report.unchanged\<close>,
  \<^verbatim>\<open>report.changed\<close>, \<^verbatim>\<open>report.error\<close>.\<close>

datatype verb = New | Unchanged | Changed | Error

text \<open>The exceptions of a run: \<^verbatim>\<open>IndexError\<close> (job index, number of jobs) and
  \<^verbatim>\<open>ImportError\<close> (message), which the worker raises itself, the \<^verbatim>\<open>KeyError\<close> of a
  dict subscript, and the \<^verbatim>\<open>ValueError\<close> (message) of a thread pool that is given a
  number of workers that is not positive.\<close>

datatype py_error =
  IndexError int nat | ImportError string | KeyError string | ValueError string

record CommandConfig =
  joblist :: "int list option"
  max_workers :: "int option"

text \<open>
  The state that a run reads and changes. \<open>cache_storage\<close> is the committed content of
  the snapshot store, per guid, most recent snapshot first; \<open>saved\<close> is the sequence of
  calls \<^verbatim>\<open>job_state.save(use_old_data)\<close> made so far (the staged writes), each with the
  job state at the time of the call; \<open>report\<close> is the sequence of report calls, each with
  the job state as the worker leaves it; \<open>pools\<close> lists the thread pools created so far,
  each with its \<^verbatim>\<open>max_workers\<close> and the jobs mapped over it.
\<close>

record Urlwatch =
  jobs :: "JobBase list"
  urlwatch_config :: CommandConfig
  cache_storage :: "string \<Rightarrow> Snapshot list"
  saved :: "(bool \<times> JobState) list"
  report :: "(verb \<times> JobState) list"
  pools :: "(int option \<times> JobBase list) list"

text \<open>The result of fetching a job (\<^verbatim>\<open>job.retrieve\<close>): data, timestamp and ETag, or
  an exception together with the answer of \<^verbatim>\<open>job.ignore_error\<close>.\<close>

datatype fetch = Fetched string real string | Failed exn bool

text \<open>\<^verbatim>\<open>psutil\<close> as the module sees it after its guarded import: the message of the
  \<^verbatim>\<open>ImportError\<close>, or the module, whose probe returns the available bytes or raises
  \<^verbatim>\<open>psutil.Error\<close>.\<close>

datatype psutil = PsutilMissing string | PsutilAvailable int | PsutilError

text \<open>
  What the worker takes from outside: the fetch of each job, difflib's
  \<^verbatim>\<open>get_close_matches(word, possibilities, n=1)\<close>, \<^verbatim>\<open>job.with_defaults(config)\<close>, the
  \<^verbatim>\<open>psutil\<close> module and \<^verbatim>\<open>os.cpu_count()\<close>.
\<close>

record environment =
  retrieve :: "JobBase \<Rightarrow> fetch"
  get_close_matches :: "string \<Rightarrow> string list \<Rightarrow> string list"
  with_defaults :: "JobBase \<Rightarrow> JobBase"
  psutil_module :: psutil
  cpu_count :: "int option"

subsection \<open>The snapshot store and \<^verbatim>\<open>JobState.process\<close>\<close>

text \<open>Modelled from the spec: \<^verbatim>\<open>load\<close> of the snapshot store (storage.py is not among
  the sources). It returns the most recent snapshot, or the zero-value tuple (empty data,
  timestamp 0, tries 0, empty etag) if none exists.\<close>

definition load :: "Snapshot list \<Rightarrow> Snapshot" where
  "load h = (case h of
       [] \<Rightarrow> \<lparr>data = [], timestamp = 0, tries_stored = 0, etag = []\<rparr>
     | s # _ \<Rightarrow> s)"

text \<open>Modelled from the spec: \<^verbatim>\<open>get_history_data\<close> of the snapshot store (storage.py is
  not among the sources). A mapping from data to snapshot, most recent first, deduplicated
  by content, keeping the metadata of the most recent occurrence.\<close>

fun get_history_data :: "Snapshot list \<Rightarrow> (string \<times> Snapshot) list" where
  "get_history_data [] = []"
| "get_history_data (s # h) =
     (data s, s) # filter (\<lambda>kv. fst kv \<noteq> data s) (get_history_data h)"

text \<open>Modelled from the spec: \<^verbatim>\<open>JobState.process\<close> (handler.py is not among the sources).
  The job state holds the most recent persisted snapshot as old data, its counter
  \<open>tries\<close> is seeded from that snapshot, and the new fields are the fetch result of
  this run. On a failing fetch (an exception that is set and not ignorable, the case of
  the retry policy) the counter is the stored one plus 1; a \<^verbatim>\<open>NotModifiedError\<close> is
  not a failure. The worker's comment at line 94 speaks of an increment for every
  exception; its branch for a \<^verbatim>\<open>NotModifiedError\<close> tests \<^verbatim>\<open>job_state.tries > 0\<close>
  (line 110) and so provides for a counter that is still 0 there, as the spec has it.\<close>

definition process :: "environment \<Rightarrow> Urlwatch \<Rightarrow> JobBase \<Rightarrow> JobState" where
  "process E u j =
     (let h = cache_storage u (guid j);
          old = load h;
          js = \<lparr>job = j, old_data = data old, old_timestamp = timestamp old,
                old_etag = etag old, history_dic_snapshots = get_history_data h,
                new_data = [], new_timestamp = 0, new_etag = [],
                exception = None, error_ignored = False, tries = tries_stored old\<rparr>
      in case retrieve E j of
           Fetched d t e \<Rightarrow> js\<lparr>new_data := d, new_timestamp := t, new_etag := e\<rparr>
         | Failed x ign \<Rightarrow>
             js\<lparr>exception := Some x, error_ignored := ign,
                tries := (if ign \<or> x = NotModifiedError then tries js else tries js + 1)\<rparr>)"

subsection \<open>\<^verbatim>\<open>job_runner\<close>\<close>

text \<open>The calls \<^verbatim>\<open>job_state.save(use_old_data=...)\<close> and \<^verbatim>\<open>urlwatcher.report.<verb>(job_state)\<close>
  are recorded in the run state.\<close>

definition save :: "bool \<Rightarrow> JobState \<Rightarrow> Urlwatch \<Rightarrow> Urlwatch" where
  "save use_old_data js u = u\<lparr>saved := saved u @ [(use_old_data, js)]\<rparr>"

definition report_verb :: "verb \<Rightarrow> JobState \<Rightarrow> Urlwatch \<Rightarrow> Urlwatch" where
  "report_verb v js u = u\<lparr>report := report u @ [(v, js)]\<rparr>"

text \<open>Modelled from the spec: what a recorded \<^verbatim>\<open>save\<close> call persists (\<^verbatim>\<open>JobState.save\<close>
  is in handler.py, not among the sources): the previous data when \<^verbatim>\<open>use_old_data\<close> is
  set, else the new data, with the counter \<open>tries\<close> of the job state.\<close>

definition saved_data :: "bool \<times> JobState \<Rightarrow> string" where
  "saved_data c = (if fst c then old_data (snd c) else new_data (snd c))"

definition saved_tries :: "bool \<times> JobState \<Rightarrow> int" where
  "saved_tries c = tries (snd c)"

text \<open>Lines 145 to 151: the closest match replaces the old data, timestamp and ETag.
  The subscript \<^verbatim>\<open>history_dic_snapshots[close_matches[0]]\<close> raises \<^verbatim>\<open>KeyError\<close> for a
  missing key.\<close>

definition fuzzy_baseline ::
  "(string \<Rightarrow> string list \<Rightarrow> string list) \<Rightarrow> JobState \<Rightarrow> py_error + JobState" where
  "fuzzy_baseline gcm js =
     (if length (history_dic_snapshots js) > 1 then
        (case gcm (new_data js) (map fst (history_dic_snapshots js)) of
           [] \<Rightarrow> Inr js
         | m # _ \<Rightarrow>
             (case map_of (history_dic_snapshots js) m of
                None \<Rightarrow> Inl (KeyError m)
              | Some s \<Rightarrow>
                  Inr (js\<lparr>old_data := m, old_timestamp := timestamp s, old_etag := etag s\<rparr>)))
      else Inr js)"

text \<open>The body of the loop of \<^verbatim>\<open>job_runner\<close> (lines 93 to 160), for one processed job
  state.\<close>

definition job_runner_body ::
  "(string \<Rightarrow> string list \<Rightarrow> string list) \<Rightarrow> JobState \<Rightarrow> Urlwatch
     \<Rightarrow> py_error option \<times> Urlwatch" where
  "job_runner_body gcm js u =
     (let max_tries' = (case max_tries (job js) of
                          None \<Rightarrow> 0
                        | Some m \<Rightarrow> if m = 0 then 0 else m)
      in case exception js of
           Some x \<Rightarrow>
             if error_ignored js then (None, u)
             else if x = NotModifiedError then
               (if tries js > 0 then
                  (let js' = js\<lparr>tries := 0\<rparr>
                   in (None, report_verb Unchanged js' (save True js' u)))
                else (None, report_verb Unchanged js u))
             else if tries js < max_tries' then (None, save True js u)
             else (None, report_verb Error js (save True js u))
         | None \<Rightarrow>
             if old_data js \<noteq> [] \<or> old_timestamp js \<noteq> 0 then
               (if new_data js = old_data js
                   \<or> new_data js \<in> set (map fst (history_dic_snapshots js)) then
                  (if tries js > 0 then
                     (let js' = js\<lparr>tries := 0\<rparr>
                      in (None, report_verb Unchanged js' (save False js' u)))
                   else (None, report_verb Unchanged js u))
                else
                  (case fuzzy_baseline gcm js of
                     Inl e \<Rightarrow> (Some e, u)
                   | Inr js1 \<Rightarrow>
                       (let js' = js1\<lparr>tries := 0\<rparr>
                        in (None, report_verb Changed js' (save False js' u)))))
             else
               (let js' = js\<lparr>tries := 0\<rparr>
                in (None, report_verb New js' (save False js' u))))"

text \<open>The loop over the processed job states, in job order; an exception ends it.\<close>

fun job_runner_loop ::
  "(string \<Rightarrow> string list \<Rightarrow> string list) \<Rightarrow> JobState list \<Rightarrow> Urlwatch
     \<Rightarrow> py_error option \<times> Urlwatch" where
  "job_runner_loop gcm [] u = (None, u)"
| "job_runner_loop gcm (js # rest) u =
     (case job_runner_body gcm js u of
        (Some e, u') \<Rightarrow> (Some e, u')
      | (None, u') \<Rightarrow> job_runner_loop gcm rest u')"

text \<open>\<^verbatim>\<open>ThreadPoolExecutor(max_workers=max_workers)\<close> (line 81) accepts \<^verbatim>\<open>None\<close> and
  a positive number; for a number that is 0 or negative it raises \<^verbatim>\<open>ValueError\<close>.\<close>

definition valid_max_workers :: "int option \<Rightarrow> bool" where
  "valid_max_workers mw = (case mw of None \<Rightarrow> True | Some w \<Rightarrow> 0 < w)"

text \<open>\<^verbatim>\<open>job_runner(stack, jobs, max_workers)\<close>: the pool is created first, which raises
  for a \<^verbatim>\<open>max_workers\<close> that is not valid, before any job is submitted. Then the pool
  processes every job; the results come back in job order. The staged saves of a run are
  not visible to \<^verbatim>\<open>load\<close>, so every job is processed against the committed store. The
  future that looks for a new release and the log lines are left out: no property below
  reads them.\<close>

definition job_runner ::
  "environment \<Rightarrow> JobBase list \<Rightarrow> int option \<Rightarrow> Urlwatch \<Rightarrow> py_error option \<times> Urlwatch" where
  "job_runner E js mw u =
     (if \<not> valid_max_workers mw
      then (Some (ValueError ''max_workers must be greater than 0''), u)
      else job_runner_loop (get_close_matches E) (map (process E u) js)
             (u\<lparr>pools := pools u @ [(mw, js)]\<rparr>))"

subsection \<open>\<^verbatim>\<open>get_virt_mem\<close> and the size of the browser pool\<close>

text \<open>The message of the \<^verbatim>\<open>ImportError\<close> of \<^verbatim>\<open>get_virt_mem\<close>: a fixed text, a newline
  and the message kept from the failed import.\<close>

definition psutil_import_message :: "string \<Rightarrow> string" where
  "psutil_import_message msg =
     ''Error when loading package 'psutil'; cannot use 'use_browser: true'. Please install ''
     @ ''dependencies with 'pip install webchanges[use_browser]'.'' @ [CHR 0x0A] @ msg"

definition get_virt_mem :: "psutil \<Rightarrow> py_error + int" where
  "get_virt_mem p =
     (case p of
        PsutilMissing msg \<Rightarrow> Inl (ImportError (psutil_import_message msg))
      | PsutilAvailable virt_mem \<Rightarrow> Inr virt_mem
      | PsutilError \<Rightarrow> Inr 0)"

text \<open>Lines 221 to 225. \<^verbatim>\<open>int(virt_mem / 200e6)\<close> truncates the quotient of a byte count
  by 200 000 000; for a count from 0 up to \<open>2 ^ 53\<close> the float quotient truncates to the
  integer quotient, which is what the model computes. \<^verbatim>\<open>os.cpu_count() or 1\<close> is 1 when
  the count is \<^verbatim>\<open>None\<close> or 0.\<close>

definition browser_max_workers :: "int option \<Rightarrow> int \<Rightarrow> int option \<Rightarrow> int" where
  "browser_max_workers configured virt_mem cpus =
     (let computed =
            min (max (virt_mem div 200000000) 1)
                (case cpus of None \<Rightarrow> 1 | Some c \<Rightarrow> if c = 0 then 1 else c)
      in case configured of
           None \<Rightarrow> computed
         | Some w \<Rightarrow> if w \<noteq> 0 then w else computed)"

subsection \<open>\<^verbatim>\<open>run_jobs\<close>\<close>

text \<open>Lines 184 to 186: the first index outside \<open>[-n, -1] \<union> [1, n]\<close> raises.\<close>

fun check_joblist :: "nat \<Rightarrow> int list \<Rightarrow> py_error option" where
  "check_joblist num_jobs [] = None"
| "check_joblist num_jobs (idx # rest) =
     (if \<not> (- int num_jobs \<le> idx \<and> idx \<le> - 1 \<or> 1 \<le> idx \<and> idx \<le> int num_jobs)
      then Some (IndexError idx num_jobs)
      else check_joblist num_jobs rest)"

text \<open>Lines 183 to 201: the subset of jobs to run. A \<^verbatim>\<open>joblist\<close> that is \<^verbatim>\<open>None\<close> or empty
  selects every job; otherwise the indices are checked, rewritten to positive ones in the
  configuration, and the jobs whose \<^verbatim>\<open>index_number\<close> is listed are kept, in job order.\<close>

definition extract_jobs :: "environment \<Rightarrow> Urlwatch \<Rightarrow> py_error + (Urlwatch \<times> JobBase list)" where
  "extract_jobs E u =
     (case joblist (urlwatch_config u) of
        None \<Rightarrow> Inr (u, map (with_defaults E) (jobs u))
      | Some l \<Rightarrow>
          if l = [] then Inr (u, map (with_defaults E) (jobs u))
          else
            (case check_joblist (length (jobs u)) l of
               Some e \<Rightarrow> Inl e
             | None \<Rightarrow>
                 (let l' = map (\<lambda>jn. if jn > 0 then jn else int (length (jobs u)) + jn + 1) l
                  in Inr (u\<lparr>urlwatch_config := (urlwatch_config u)\<lparr>joblist := Some l'\<rparr>\<rparr>,
                          map (with_defaults E)
                            (filter (\<lambda>j. index_number j \<in> set l') (jobs u))))))"

text \<open>Lines 205 to 232: the jobs without a browser run first, with the configured
  \<^verbatim>\<open>max_workers\<close>; the browser jobs run after them, with a pool sized from the
  available memory. An exception of the first phase ends the run.\<close>

definition run_phases :: "environment \<Rightarrow> JobBase list \<Rightarrow> Urlwatch \<Rightarrow> py_error option \<times> Urlwatch" where
  "run_phases E js u =
     (let jobs_to_run = filter (\<lambda>j. \<not> is_browser j) js;
          first = (if jobs_to_run \<noteq> []
                   then job_runner E jobs_to_run (max_workers (urlwatch_config u)) u
                   else (None, u))
      in case first of
           (Some e, u1) \<Rightarrow> (Some e, u1)
         | (None, u1) \<Rightarrow>
             (let jobs_to_run = filter is_browser js
              in if jobs_to_run \<noteq> [] then
                   (case get_virt_mem (psutil_module E) of
                      Inl e \<Rightarrow> (Some e, u1)
                    | Inr virt_mem \<Rightarrow>
                        job_runner E jobs_to_run
                          (Some (browser_max_workers (max_workers (urlwatch_config u1))
                                   virt_mem (cpu_count E)))
                          u1)
                 else (None, u1)))"

definition run_jobs :: "environment \<Rightarrow> Urlwatch \<Rightarrow> py_error option \<times> Urlwatch" where
  "run_jobs E u =
     (case extract_jobs E u of
        Inl e \<Rightarrow> (Some e, u)
      | Inr (u', js) \<Rightarrow> run_phases E js u')"

subsection \<open>Example inputs\<close>

text \<open>Two jobs, a store that holds one snapshot for the first of them, and an
  environment whose fetch, memory probe and close-match function are fixed.\<close>

definition job_a :: JobBase where
  "job_a = \<lparr>index_number = 1, guid = ''a'', max_tries = Some 2, is_browser = False\<rparr>"

definition job_b :: JobBase where
  "job_b = \<lparr>index_number = 2, guid = ''b'', max_tries = None, is_browser = True\<rparr>"

definition snapshot_x :: Snapshot where
  "snapshot_x = \<lparr>data = ''X'', timestamp = 100, tries_stored = 0, etag = []\<rparr>"

definition store_x :: "string \<Rightarrow> Snapshot list" where
  "store_x g = (if g = ''a'' then [snapshot_x] else [])"

definition fresh_run :: "JobBase list \<Rightarrow> CommandConfig \<Rightarrow> (string \<Rightarrow> Snapshot list) \<Rightarrow> Urlwatch" where
  "fresh_run js c st =
     \<lparr>jobs = js, urlwatch_config = c, cache_storage = st, saved = [], report = [], pools = []\<rparr>"

definition no_options :: CommandConfig where
  "no_options = \<lparr>joblist = None, max_workers = None\<rparr>"

definition first_possibility :: "string \<Rightarrow> string list \<Rightarrow> string list" where
  "first_possibility w ps = take 1 ps"

definition fixed_env :: "fetch \<Rightarrow> psutil \<Rightarrow> environment" where
  "fixed_env f p =
     \<lparr>retrieve = (\<lambda>j. f), get_close_matches = first_possibility,
      with_defaults = (\<lambda>j. j), psutil_module = p, cpu_count = Some 4\<rparr>"

text \<open>More snapshots: one left by a failed run, the zero-value tuple stored as a
  snapshot, and a snapshot without timestamp; a store that holds a given history for the
  first job.\<close>

definition snapshot_y :: Snapshot where
  "snapshot_y = \<lparr>data = ''Y'', timestamp = 200, tries_stored = 1, etag = ''e2''\<rparr>"

definition snapshot_blank :: Snapshot where
  "snapshot_blank = \<lparr>data = [], timestamp = 0, tries_stored = 0, etag = []\<rparr>"

definition snapshot_untimed :: Snapshot where
  "snapshot_untimed = \<lparr>data = ''X'', timestamp = 0, tries_stored = 1, etag = []\<rparr>"

definition store_of :: "Snapshot list \<Rightarrow> string \<Rightarrow> Snapshot list" where
  "store_of h g = (if g = ''a'' then h else [])"

section \<open>Properties\<close>

lemmas ex_defs = job_a_def job_b_def snapshot_x_def store_x_def fresh_run_def no_options_def
  first_possibility_def fixed_env_def snapshot_y_def snapshot_blank_def snapshot_untimed_def
  store_of_def

lemmas run_defs = run_jobs_def extract_jobs_def run_phases_def job_runner_def
  valid_max_workers_def process_def job_runner_body_def fuzzy_baseline_def get_virt_mem_def
  browser_max_workers_def load_def save_def report_verb_def Let_def

subsection \<open>The job state after \<^verbatim>\<open>process\<close>\<close>

lemma process_failed:
  "retrieve E j = Failed x ign \<Longrightarrow>
   process E u j =
     \<lparr>job = j, old_data = data (load (cache_storage u (guid j))),
      old_timestamp = timestamp (load (cache_storage u (guid j))),
      old_etag = etag (load (cache_storage u (guid j))),
      history_dic_snapshots = get_history_data (cache_storage u (guid j)),
      new_data = [], new_timestamp = 0, new_etag = [],
      exception = Some x, error_ignored = ign,
      tries = (if ign \<or> x = NotModifiedError
               then tries_stored (load (cache_storage u (guid j)))
               else tries_stored (load (cache_storage u (guid j))) + 1)\<rparr>"
  by (simp add: process_def Let_def)

lemma process_fetched:
  "retrieve E j = Fetched d t e \<Longrightarrow>
   process E u j =
     \<lparr>job = j, old_data = data (load (cache_storage u (guid j))),
      old_timestamp = timestamp (load (cache_storage u (guid j))),
      old_etag = etag (load (cache_storage u (guid j))),
      history_dic_snapshots = get_history_data (cache_storage u (guid j)),
      new_data = d, new_timestamp = t, new_etag = e,
      exception = None, error_ignored = False,
      tries = tries_stored (load (cache_storage u (guid j)))\<rparr>"
  by (simp add: process_def Let_def)

text \<open>The history that \<^verbatim>\<open>process\<close> hands to the worker has distinct keys, as a dict
  has.\<close>

lemma get_history_data_distinct: "distinct (map fst (get_history_data h))"
  by (induction h) (auto simp: distinct_map_filter)

subsection \<open>The branches of the loop body\<close>

lemma body_ignored:
  "exception js = Some x \<Longrightarrow> error_ignored js \<Longrightarrow> job_runner_body gcm js v = (None, v)"
  by (simp add: job_runner_body_def)

lemma body_failure:
  assumes "exception js = Some x" "x \<noteq> NotModifiedError" "\<not> error_ignored js"
  shows "job_runner_body gcm js v =
     (None, v\<lparr>saved := saved v @ [(True, js)],
              report := report v @
                 (if (case max_tries (job js) of None \<Rightarrow> 0 | Some m \<Rightarrow> m) \<le> tries js
                  then [(Error, js)] else [])\<rparr>)"
  using assms
  by (auto simp: job_runner_body_def save_def report_verb_def Let_def split: option.splits)

lemma body_not_modified:
  assumes "exception js = Some NotModifiedError" "\<not> error_ignored js"
  shows "job_runner_body gcm js v =
     (if tries js > 0
      then (None, v\<lparr>saved := saved v @ [(True, js\<lparr>tries := 0\<rparr>)],
                     report := report v @ [(Unchanged, js\<lparr>tries := 0\<rparr>)]\<rparr>)
      else (None, v\<lparr>report := report v @ [(Unchanged, js)]\<rparr>))"
  using assms
  by (simp add: job_runner_body_def save_def report_verb_def Let_def)

lemma body_new:
  assumes "exception js = None" "old_data js = []" "old_timestamp js = 0"
  shows "job_runner_body gcm js v =
     (None, v\<lparr>saved := saved v @ [(False, js\<lparr>tries := 0\<rparr>)],
              report := report v @ [(New, js\<lparr>tries := 0\<rparr>)]\<rparr>)"
  using assms
  by (simp add: job_runner_body_def save_def report_verb_def Let_def)

lemma body_exact:
  assumes "exception js = None" "old_data js \<noteq> [] \<or> old_timestamp js \<noteq> 0"
    "new_data js = old_data js \<or> new_data js \<in> set (map fst (history_dic_snapshots js))"
  shows "job_runner_body gcm js v =
     (if tries js > 0
      then (None, v\<lparr>saved := saved v @ [(False, js\<lparr>tries := 0\<rparr>)],
                     report := report v @ [(Unchanged, js\<lparr>tries := 0\<rparr>)]\<rparr>)
      else (None, v\<lparr>report := report v @ [(Unchanged, js)]\<rparr>))"
  using assms
  by (auto simp: job_runner_body_def save_def report_verb_def Let_def)

lemma body_differs:
  assumes "exception js = None" "old_data js \<noteq> [] \<or> old_timestamp js \<noteq> 0"
    "new_data js \<noteq> old_data js" "new_data js \<notin> set (map fst (history_dic_snapshots js))"
  shows "job_runner_body gcm js v =
     (case fuzzy_baseline gcm js of
        Inl e \<Rightarrow> (Some e, v)
      | Inr js1 \<Rightarrow>
          (None, v\<lparr>saved := saved v @ [(False, js1\<lparr>tries := 0\<rparr>)],
                   report := report v @ [(Changed, js1\<lparr>tries := 0\<rparr>)]\<rparr>))"
  using assms
  by (auto simp: job_runner_body_def save_def report_verb_def Let_def split: sum.splits)

subsection \<open>Retry policy\<close>

text \<open>
  Claim C1. A job is fetched and the fetch ends with an exception that is neither
  ignored nor a \<^verbatim>\<open>NotModifiedError\<close>. Then the counter of this run is the stored counter
  plus 1, and the worker reports the job as an error if and only if this counter is at
  least \<^verbatim>\<open>max_tries\<close>, where an unset \<^verbatim>\<open>max_tries\<close> counts as 0; with \<^verbatim>\<open>max_tries\<close>
  unset or 0 the error is always reported. Otherwise nothing is reported. In both cases
  the worker saves with \<^verbatim>\<open>use_old_data=True\<close>: the old data, with the incremented
  counter. The stored counter is taken as non-negative, as the data model has it.
\<close>

theorem retry_policy_error_iff_max_tries_reached:
  assumes "retrieve E j = Failed x False" and "x \<noteq> NotModifiedError"
    and "0 \<le> tries_stored (load (cache_storage u (guid j)))"
  shows "let stored = load (cache_storage u (guid j));
             js = process E u j;
             r = job_runner_body gcm js v;
             max_tries' = (case max_tries j of None \<Rightarrow> 0 | Some m \<Rightarrow> m)
         in tries js = tries_stored stored + 1
          \<and> fst r = None
          \<and> (report (snd r) = report v @ [(Error, js)] \<longleftrightarrow> max_tries' \<le> tries js)
          \<and> (max_tries j = None \<or> max_tries j = Some 0
                \<longrightarrow> report (snd r) = report v @ [(Error, js)])
          \<and> (tries js < max_tries' \<longrightarrow> report (snd r) = report v)
          \<and> saved (snd r) = saved v @ [(True, js)]
          \<and> saved_data (True, js) = data stored
          \<and> saved_tries (True, js) = tries_stored stored + 1"
proof -
  let ?js = "process E u j"
  have ex: "exception ?js = Some x" and ign: "\<not> error_ignored ?js" and jb: "job ?js = j"
    by (simp_all add: process_failed [OF assms(1)])
  have t: "tries ?js = tries_stored (load (cache_storage u (guid j))) + 1"
    using assms(2) by (simp add: process_failed [OF assms(1)])
  have od: "old_data ?js = data (load (cache_storage u (guid j)))"
    by (simp add: process_failed [OF assms(1)])
  have t0: "0 \<le> tries ?js"
    using t assms(3) by simp
  show ?thesis
    using body_failure [OF ex assms(2) ign, of gcm v] t od jb t0
    by (auto simp: saved_data_def saved_tries_def Let_def split: option.splits)
qed

text \<open>The theorem at two jobs whose fetch times out, with a stored counter of 0: the job
  with \<^verbatim>\<open>max_tries\<close> 2 has counter 1 and is not reported, the job without \<^verbatim>\<open>max_tries\<close>
  is reported as an error.\<close>

theorem retry_policy_error_iff_max_tries_reached_witness:
  "retrieve (fixed_env (Failed (FetchError ''timeout'') False) PsutilError) job_a
     = Failed (FetchError ''timeout'') False
   \<and> FetchError ''timeout'' \<noteq> NotModifiedError
   \<and> 0 \<le> tries_stored (load (cache_storage (fresh_run [job_a, job_b] no_options store_x) (guid job_a)))
   \<and> tries (process (fixed_env (Failed (FetchError ''timeout'') False) PsutilError)
              (fresh_run [job_a, job_b] no_options store_x) job_a) = 1
   \<and> report (snd (job_runner_body first_possibility
         (process (fixed_env (Failed (FetchError ''timeout'') False) PsutilError)
            (fresh_run [job_a, job_b] no_options store_x) job_a)
         (fresh_run [job_a, job_b] no_options store_x))) = []
   \<and> map fst (report (snd (job_runner_body first_possibility
         (process (fixed_env (Failed (FetchError ''timeout'') False) PsutilError)
            (fresh_run [job_a, job_b] no_options store_x) job_b)
         (fresh_run [job_a, job_b] no_options store_x)))) = [Error]"
proof -
  let ?E = "fixed_env (Failed (FetchError ''timeout'') False) PsutilError"
  let ?u = "fresh_run [job_a, job_b] no_options store_x"
  have h1: "retrieve ?E job_a = Failed (FetchError ''timeout'') False"
    and h1': "retrieve ?E job_b = Failed (FetchError ''timeout'') False"
    by (simp_all add: fixed_env_def)
  have h2: "FetchError ''timeout'' \<noteq> NotModifiedError"
    by simp
  have h3: "0 \<le> tries_stored (load (cache_storage ?u (guid job_a)))"
    and h3': "0 \<le> tries_stored (load (cache_storage ?u (guid job_b)))"
    by (simp_all add: ex_defs load_def)
  show ?thesis
    using h1 h2 h3 retry_policy_error_iff_max_tries_reached [OF h1 h2 h3, of first_possibility ?u]
      retry_policy_error_iff_max_tries_reached [OF h1' h2 h3', of first_possibility ?u]
    by (simp add: Let_def ex_defs load_def)
qed

subsection \<open>Classification of a successful fetch\<close>

lemma fuzzy_baseline_match:
  assumes "1 < length (history_dic_snapshots js)"
    and "gcm (new_data js) (map fst (history_dic_snapshots js)) = m # ms"
    and "map_of (history_dic_snapshots js) m = Some s"
  shows "fuzzy_baseline gcm js =
     Inr (js\<lparr>old_data := m, old_timestamp := timestamp s, old_etag := etag s\<rparr>)"
  using assms by (simp add: fuzzy_baseline_def)

lemma fuzzy_baseline_none:
  assumes "length (history_dic_snapshots js) \<le> 1
     \<or> gcm (new_data js) (map fst (history_dic_snapshots js)) = []"
  shows "fuzzy_baseline gcm js = Inr js"
  using assms by (auto simp: fuzzy_baseline_def)

text \<open>
  A job with history, as line 130 detects it (the old data is not empty or the old
  timestamp is not 0), whose new data equals neither the old data nor a key of
  \<^verbatim>\<open>history_dic_snapshots\<close>. If the history holds more than one snapshot and
  \<^verbatim>\<open>get_close_matches(new_data, keys, n=1)\<close> answers a match \<open>m\<close>, stored with the
  snapshot \<open>s\<close>, then the old data, timestamp and ETag of the job state are replaced by
  \<open>m\<close> and by the timestamp and ETag of \<open>s\<close> before the report. If the history holds at
  most one snapshot, or there is no match, they stay those of the previous snapshot. In
  both cases the job is reported as changed, its counter is 0 and the new data is saved.
  The similarity measure and its cutoff are difflib's: the close-match function is a
  parameter \<open>gcm\<close>.
\<close>

lemma line_130_no_exact_match_is_changed:
  assumes "exception js = None"
    and "old_data js \<noteq> [] \<or> old_timestamp js \<noteq> 0"
    and "new_data js \<noteq> old_data js"
    and "new_data js \<notin> fst ` set (history_dic_snapshots js)"
    and "distinct (map fst (history_dic_snapshots js))"
  shows "let h = history_dic_snapshots js;
             close_matches = gcm (new_data js) (map fst h);
             r = job_runner_body gcm js v;
             best = js\<lparr>old_data := m, old_timestamp := timestamp s, old_etag := etag s,
                       tries := 0\<rparr>;
             prev = js\<lparr>tries := 0\<rparr>
         in (1 < length h \<and> close_matches = m # ms \<and> map_of h m = Some s \<longrightarrow>
               r = (None, v\<lparr>saved := saved v @ [(False, best)],
                            report := report v @ [(Changed, best)]\<rparr>)
               \<and> (m, s) \<in> set h
               \<and> saved_data (False, best) = new_data js)
          \<and> (length h \<le> 1 \<or> close_matches = [] \<longrightarrow>
               r = (None, v\<lparr>saved := saved v @ [(False, prev)],
                            report := report v @ [(Changed, prev)]\<rparr>)
               \<and> old_data prev = old_data js \<and> old_timestamp prev = old_timestamp js
               \<and> old_etag prev = old_etag js
               \<and> saved_data (False, prev) = new_data js)"
proof -
  have nk: "new_data js \<notin> set (map fst (history_dic_snapshots js))"
    using assms(4) by simp
  note d = body_differs [OF assms(1) assms(2) assms(3) nk, of gcm v]
  have a: "job_runner_body gcm js v =
      (None, v\<lparr>saved := saved v @ [(False, js\<lparr>old_data := m, old_timestamp := timestamp s,
                                         old_etag := etag s, tries := 0\<rparr>)],
               report := report v @ [(Changed, js\<lparr>old_data := m, old_timestamp := timestamp s,
                                         old_etag := etag s, tries := 0\<rparr>)]\<rparr>)"
    if "1 < length (history_dic_snapshots js)"
      "gcm (new_data js) (map fst (history_dic_snapshots js)) = m # ms"
      "map_of (history_dic_snapshots js) m = Some s"
    using d fuzzy_baseline_match [of js gcm m ms s] that by simp
  have b: "job_runner_body gcm js v =
      (None, v\<lparr>saved := saved v @ [(False, js\<lparr>tries := 0\<rparr>)],
               report := report v @ [(Changed, js\<lparr>tries := 0\<rparr>)]\<rparr>)"
    if "length (history_dic_snapshots js) \<le> 1
        \<or> gcm (new_data js) (map fst (history_dic_snapshots js)) = []"
    using d fuzzy_baseline_none [of js gcm] that by simp
  have c: "(m, s) \<in> set (history_dic_snapshots js)"
    if "map_of (history_dic_snapshots js) m = Some s"
    using that by (rule map_of_SomeD)
  show ?thesis
    using a b c by (simp add: Let_def saved_data_def)
qed

text \<open>
  A job with history, as line 130 detects it, whose new data equals the old data or a key
  of the deduplicated history, is reported as unchanged, and its counter ends at 0 (for a
  counter that is not negative).
\<close>

lemma line_130_exact_match_is_unchanged:
  assumes "exception js = None"
    and "old_data js \<noteq> [] \<or> old_timestamp js \<noteq> 0"
    and "new_data js = old_data js \<or> new_data js \<in> fst ` set (history_dic_snapshots js)"
    and "0 \<le> tries js"
  shows "let r = job_runner_body gcm js v
         in fst r = None
          \<and> report (snd r) = report v @ [(Unchanged, js\<lparr>tries := 0\<rparr>)]
          \<and> tries (snd (last (report (snd r)))) = 0
          \<and> fst (last (report (snd r))) \<noteq> Changed"
proof -
  have m: "new_data js = old_data js \<or> new_data js \<in> set (map fst (history_dic_snapshots js))"
    using assms(3) by simp
  have "tries js = 0 \<Longrightarrow> js\<lparr>tries := 0\<rparr> = js"
    by simp
  then show ?thesis
    using body_exact [OF assms(1) assms(2) m, of gcm v] assms(4)
    by (cases "0 < tries js") (simp_all add: Let_def)
qed

text \<open>
  After a successful fetch the worker reports the job as new exactly when line 130 is
  false: the snapshot that \<^verbatim>\<open>load\<close> returned has empty data and timestamp 0. That is so
  when the guid has no snapshot; a snapshot with timestamp 0 and data that is not empty
  makes line 130 true.
\<close>

lemma line_130_decides_new:
  assumes "retrieve E j = Fetched d t e"
  shows "let old = load (cache_storage u (guid j));
             js = process E u j;
             r = job_runner_body gcm js v
         in (map fst (report (snd r)) = map fst (report v) @ [New]
               \<longleftrightarrow> data old = [] \<and> timestamp old = 0)
          \<and> (data old = [] \<and> timestamp old = 0 \<longrightarrow>
                r = (None, v\<lparr>saved := saved v @ [(False, js\<lparr>tries := 0\<rparr>)],
                             report := report v @ [(New, js\<lparr>tries := 0\<rparr>)]\<rparr>)
                \<and> saved_data (False, js\<lparr>tries := 0\<rparr>) = d)
          \<and> (cache_storage u (guid j) = [] \<longrightarrow>
                map fst (report (snd r)) = map fst (report v) @ [New])
          \<and> (timestamp old = 0 \<and> data old \<noteq> [] \<longrightarrow>
                map fst (report (snd r)) \<noteq> map fst (report v) @ [New])"
proof -
  let ?old = "load (cache_storage u (guid j))"
  let ?js = "process E u j"
  let ?r = "job_runner_body gcm ?js v"
  note p = process_fetched [OF assms, of u]
  have ex: "exception ?js = None" and od: "old_data ?js = data ?old"
    and ot: "old_timestamp ?js = timestamp ?old" and nd: "new_data ?js = d"
    by (simp_all add: p)
  have new: "?r = (None, v\<lparr>saved := saved v @ [(False, ?js\<lparr>tries := 0\<rparr>)],
                           report := report v @ [(New, ?js\<lparr>tries := 0\<rparr>)]\<rparr>)"
    if "data ?old = []" "timestamp ?old = 0"
    using body_new [OF ex, of gcm v] that od ot by simp
  have not_new: "map fst (report (snd ?r)) \<noteq> map fst (report v) @ [New]"
    if h: "data ?old \<noteq> [] \<or> timestamp ?old \<noteq> 0"
  proof -
    have h': "old_data ?js \<noteq> [] \<or> old_timestamp ?js \<noteq> 0"
      using h od ot by simp
    show ?thesis
    proof (cases "new_data ?js = old_data ?js
                  \<or> new_data ?js \<in> set (map fst (history_dic_snapshots ?js))")
      case True
      show ?thesis
        using body_exact [OF ex h' True, of gcm v] by (simp split: if_splits)
    next
      case False
      then have n1: "new_data ?js \<noteq> old_data ?js"
        and n2: "new_data ?js \<notin> set (map fst (history_dic_snapshots ?js))"
        by simp_all
      show ?thesis
        using body_differs [OF ex h' n1 n2, of gcm v] by (simp split: sum.splits)
    qed
  qed
  have empty: "data ?old = [] \<and> timestamp ?old = 0" if "cache_storage u (guid j) = []"
    using that by (simp add: load_def)
  have sd: "saved_data (False, ?js\<lparr>tries := 0\<rparr>) = d"
    using nd by (simp add: saved_data_def)
  have iff: "map fst (report (snd ?r)) = map fst (report v) @ [New]
               \<longleftrightarrow> data ?old = [] \<and> timestamp ?old = 0"
    using new not_new by auto
  show ?thesis
    unfolding Let_def using iff new sd empty not_new by blast
qed

subsection \<open>A stored snapshot with empty data and timestamp 0\<close>

text \<open>
  Line 130 cannot tell a stored snapshot with empty data and timestamp 0 from the
  zero-value tuple that \<^verbatim>\<open>load\<close> returns for a guid without snapshots. For such a
  snapshot the worker takes the branch of lines 156 to 160, whose comment reads
  ``We have never run this job before (there are no snapshots)''. The three theorems of
  this subsection evaluate runs at such stores.
\<close>

text \<open>
  Claim C4: a job whose fetch succeeded is classified as new if and only if no prior
  snapshot exists for its guid, and an existing snapshot with timestamp 0 counts as
  history. The worker breaks this: the store holds one snapshot for the job, with empty
  data and timestamp 0, the fetch answers \<open>''X''\<close>, and the run reports the job as new.
\<close>

theorem new_despite_existing_snapshot:
  "cache_storage (fresh_run [job_a] no_options (store_of [snapshot_blank])) (guid job_a)
     = [snapshot_blank]
   \<and> timestamp snapshot_blank = 0
   \<and> map fst (report (snd (run_jobs (fixed_env (Fetched ''X'' 300 ''e3'') PsutilError)
        (fresh_run [job_a] no_options (store_of [snapshot_blank]))))) = [New]"
  by (simp add: run_defs ex_defs)

text \<open>
  Claim C3: a job with prior history whose fetch succeeded, and whose new data equals the
  data of the previous snapshot or of any snapshot of the history, is classified as
  unchanged. The worker breaks this in two runs. In the first the store holds one
  snapshot with empty data and timestamp 0 and the fetch answers the empty string, the
  data of that snapshot. In the second the store holds that snapshot and before it a
  snapshot with data \<open>''X''\<close>, and the fetch answers \<open>''X''\<close>. Both runs report the job as
  new.
\<close>

theorem exact_match_reported_new_after_blank_snapshot:
  "cache_storage (fresh_run [job_a] no_options (store_of [snapshot_blank])) (guid job_a)
     = [snapshot_blank]
   \<and> data snapshot_blank = []
   \<and> map fst (report (snd (run_jobs (fixed_env (Fetched [] 300 ''e3'') PsutilError)
        (fresh_run [job_a] no_options (store_of [snapshot_blank]))))) = [New]
   \<and> cache_storage (fresh_run [job_a] no_options (store_of [snapshot_blank, snapshot_untimed]))
        (guid job_a) = [snapshot_blank, snapshot_untimed]
   \<and> data snapshot_untimed = ''X''
   \<and> map fst (report (snd (run_jobs (fixed_env (Fetched ''X'' 300 ''e3'') PsutilError)
        (fresh_run [job_a] no_options (store_of [snapshot_blank, snapshot_untimed])))))
       = [New]"
  by (simp add: run_defs ex_defs)


subsection \<open>Not modified\<close>

text \<open>
  Claim C5, as stated, fails: the fetch raises \<^verbatim>\<open>NotModifiedError\<close>, the stored counter
  is 0, the job is reported as unchanged and nothing is saved.
\<close>

theorem not_modified_without_save:
  "retrieve (fixed_env (Failed NotModifiedError False) PsutilError) job_a
     = Failed NotModifiedError False
   \<and> cache_storage (fresh_run [job_a] no_options (store_of [snapshot_x])) (guid job_a)
       = [snapshot_x]
   \<and> map fst (report (snd (run_jobs (fixed_env (Failed NotModifiedError False) PsutilError)
        (fresh_run [job_a] no_options (store_of [snapshot_x]))))) = [Unchanged]
   \<and> saved (snd (run_jobs (fixed_env (Failed NotModifiedError False) PsutilError)
        (fresh_run [job_a] no_options (store_of [snapshot_x])))) = []"
  by (simp add: run_defs ex_defs)

text \<open>
  Claim C5, amended. The job state holds a \<^verbatim>\<open>NotModifiedError\<close> that is not flagged as
  ignored, and a counter that is not negative. Then the job is reported as unchanged and
  its counter ends at 0. If the counter was above 0, the worker saves with
  \<^verbatim>\<open>use_old_data=True\<close>: the previous data, with counter 0. If the counter was 0,
  nothing is saved.
\<close>

theorem not_modified_saves_only_after_failures:
  assumes "exception js = Some NotModifiedError" and "\<not> error_ignored js" and "0 \<le> tries js"
  shows "let r = job_runner_body gcm js v
         in fst r = None
          \<and> report (snd r) = report v @ [(Unchanged, js\<lparr>tries := 0\<rparr>)]
          \<and> (0 < tries js \<longrightarrow>
                saved (snd r) = saved v @ [(True, js\<lparr>tries := 0\<rparr>)]
                \<and> saved_data (True, js\<lparr>tries := 0\<rparr>) = old_data js
                \<and> saved_tries (True, js\<lparr>tries := 0\<rparr>) = 0)
          \<and> (tries js = 0 \<longrightarrow> saved (snd r) = saved v)"
proof -
  have "tries js = 0 \<Longrightarrow> js\<lparr>tries := 0\<rparr> = js"
    by simp
  then show ?thesis
    using body_not_modified [OF assms(1) assms(2), of gcm v] assms(3)
    by (cases "0 < tries js") (simp_all add: Let_def saved_data_def saved_tries_def)
qed

text \<open>The theorem at a stored counter of 1, where the previous data is saved with counter
  0, and at a stored counter of 0, where nothing is saved.\<close>

theorem not_modified_saves_only_after_failures_witness:
  "exception (process (fixed_env (Failed NotModifiedError False) PsutilError)
       (fresh_run [job_a] no_options (store_of [snapshot_y])) job_a) = Some NotModifiedError
   \<and> tries (process (fixed_env (Failed NotModifiedError False) PsutilError)
       (fresh_run [job_a] no_options (store_of [snapshot_y])) job_a) = 1
   \<and> map (\<lambda>c. (fst c, tries (snd c))) (report (snd (job_runner_body first_possibility
         (process (fixed_env (Failed NotModifiedError False) PsutilError)
            (fresh_run [job_a] no_options (store_of [snapshot_y])) job_a)
         (fresh_run [job_a] no_options (store_of [snapshot_y])))))
       = [(Unchanged, 0)]
   \<and> map (\<lambda>c. (fst c, saved_data c, saved_tries c)) (saved (snd (job_runner_body first_possibility
         (process (fixed_env (Failed NotModifiedError False) PsutilError)
            (fresh_run [job_a] no_options (store_of [snapshot_y])) job_a)
         (fresh_run [job_a] no_options (store_of [snapshot_y])))))
       = [(True, ''Y'', 0)]
   \<and> tries (process (fixed_env (Failed NotModifiedError False) PsutilError)
       (fresh_run [job_a] no_options (store_of [snapshot_x])) job_a) = 0
   \<and> saved (snd (job_runner_body first_possibility
         (process (fixed_env (Failed NotModifiedError False) PsutilError)
            (fresh_run [job_a] no_options (store_of [snapshot_x])) job_a)
         (fresh_run [job_a] no_options (store_of [snapshot_x])))) = []"
proof -
  let ?E = "fixed_env (Failed NotModifiedError False) PsutilError"
  let ?u = "fresh_run [job_a] no_options (store_of [snapshot_y])"
  let ?u0 = "fresh_run [job_a] no_options (store_of [snapshot_x])"
  let ?js = "process ?E ?u job_a"
  let ?js0 = "process ?E ?u0 job_a"
  have f: "retrieve ?E job_a = Failed NotModifiedError False"
    by (simp add: fixed_env_def)
  note p = process_failed [OF f, of ?u]
  note p0 = process_failed [OF f, of ?u0]
  have h1: "exception ?js = Some NotModifiedError" and g1: "exception ?js0 = Some NotModifiedError"
    by (simp_all add: p p0)
  have h2: "\<not> error_ignored ?js" and g2: "\<not> error_ignored ?js0"
    by (simp_all add: p p0)
  have h3: "0 \<le> tries ?js"
    unfolding p by (simp add: ex_defs load_def)
  have g3: "0 \<le> tries ?js0"
    unfolding p0 by (simp add: ex_defs load_def)
  show ?thesis
    using not_modified_saves_only_after_failures [OF h1 h2 h3, of first_possibility ?u]
      not_modified_saves_only_after_failures [OF g1 g2 g3, of first_possibility ?u0]
    by (simp add: Let_def process_def job_runner_body_def load_def save_def report_verb_def
        saved_data_def saved_tries_def ex_defs)
qed

text \<open>
  Claim C9. The stored counter of the job is 0 and the worker reports the job as
  unchanged (which it does for an exact match and for a \<^verbatim>\<open>NotModifiedError\<close>). Then
  the worker makes no call of \<^verbatim>\<open>save\<close> for the job: the staged writes are as before.
\<close>

theorem unchanged_with_zero_tries_saves_nothing:
  assumes "tries_stored (load (cache_storage u (guid j))) = 0"
    and "map fst (report (snd (job_runner_body gcm (process E u j) v)))
           = map fst (report v) @ [Unchanged]"
  shows "saved (snd (job_runner_body gcm (process E u j) v)) = saved v"
proof -
  let ?js = "process E u j"
  let ?r = "job_runner_body gcm ?js v"
  show ?thesis
  proof (cases "retrieve E j")
    case (Fetched d t e)
    note p = process_fetched [OF Fetched, of u]
    have ex: "exception ?js = None" and t: "tries ?js = 0"
      using assms(1) by (simp_all add: p)
    show ?thesis
    proof (cases "old_data ?js \<noteq> [] \<or> old_timestamp ?js \<noteq> 0")
      case hist: True
      show ?thesis
      proof (cases "new_data ?js = old_data ?js
                    \<or> new_data ?js \<in> set (map fst (history_dic_snapshots ?js))")
        case True
        show ?thesis
          using body_exact [OF ex hist True, of gcm v] t by simp
      next
        case False
        then have n1: "new_data ?js \<noteq> old_data ?js"
          and n2: "new_data ?js \<notin> set (map fst (history_dic_snapshots ?js))"
          by simp_all
        have "map fst (report (snd ?r)) \<noteq> map fst (report v) @ [Unchanged]"
          using body_differs [OF ex hist n1 n2, of gcm v] by (simp split: sum.splits)
        with assms(2) show ?thesis by simp
      qed
    next
      case False
      then have "old_data ?js = []" "old_timestamp ?js = 0"
        by simp_all
      then have "map fst (report (snd ?r)) \<noteq> map fst (report v) @ [Unchanged]"
        using body_new [OF ex, of gcm v] by simp
      with assms(2) show ?thesis by simp
    qed
  next
    case (Failed x ign)
    note p = process_failed [OF Failed, of u]
    have ex: "exception ?js = Some x" and ig: "error_ignored ?js = ign"
      by (simp_all add: p)
    show ?thesis
    proof (cases ign)
      case True
      then show ?thesis
        using body_ignored [OF ex, of gcm v] ig by simp
    next
      case nign: False
      show ?thesis
      proof (cases "x = NotModifiedError")
        case True
        have t: "tries ?js = 0"
          using assms(1) True by (simp add: p)
        have ex': "exception ?js = Some NotModifiedError"
          using ex True by simp
        have ni: "\<not> error_ignored ?js"
          using ig nign by simp
        show ?thesis
          using body_not_modified [OF ex' ni, of gcm v] t by simp
      next
        case False
        have ni: "\<not> error_ignored ?js"
          using ig nign by simp
        have "map fst (report (snd ?r)) \<noteq> map fst (report v) @ [Unchanged]"
          using body_failure [OF ex False ni, of gcm v] by simp
        with assms(2) show ?thesis by simp
      qed
    qed
  qed
qed

text \<open>The theorem at a \<^verbatim>\<open>NotModifiedError\<close> and at an exact match, both with a stored
  counter of 0.\<close>

theorem unchanged_with_zero_tries_saves_nothing_witness:
  "tries_stored (load (cache_storage (fresh_run [job_a] no_options (store_of [snapshot_x]))
      (guid job_a))) = 0
   \<and> map fst (report (snd (job_runner_body first_possibility
         (process (fixed_env (Failed NotModifiedError False) PsutilError)
            (fresh_run [job_a] no_options (store_of [snapshot_x])) job_a)
         (fresh_run [job_a] no_options (store_of [snapshot_x]))))) = [Unchanged]
   \<and> saved (snd (job_runner_body first_possibility
         (process (fixed_env (Failed NotModifiedError False) PsutilError)
            (fresh_run [job_a] no_options (store_of [snapshot_x])) job_a)
         (fresh_run [job_a] no_options (store_of [snapshot_x])))) = []
   \<and> map fst (report (snd (job_runner_body first_possibility
         (process (fixed_env (Fetched ''X'' 300 ''e3'') PsutilError)
            (fresh_run [job_a] no_options (store_of [snapshot_x])) job_a)
         (fresh_run [job_a] no_options (store_of [snapshot_x]))))) = [Unchanged]
   \<and> saved (snd (job_runner_body first_possibility
         (process (fixed_env (Fetched ''X'' 300 ''e3'') PsutilError)
            (fresh_run [job_a] no_options (store_of [snapshot_x])) job_a)
         (fresh_run [job_a] no_options (store_of [snapshot_x])))) = []"
proof -
  let ?N = "fixed_env (Failed NotModifiedError False) PsutilError"
  let ?F = "fixed_env (Fetched ''X'' 300 ''e3'') PsutilError"
  let ?u = "fresh_run [job_a] no_options (store_of [snapshot_x])"
  have s0: "tries_stored (load (cache_storage ?u (guid job_a))) = 0"
    by (simp add: ex_defs load_def)
  have s: "saved ?u = []" and r: "map fst (report ?u) @ [Unchanged] = [Unchanged]"
    by (simp_all add: fresh_run_def)
  have n: "map fst (report (snd (job_runner_body first_possibility (process ?N ?u job_a) ?u)))
             = map fst (report ?u) @ [Unchanged]"
    by (simp add: process_def job_runner_body_def load_def save_def report_verb_def Let_def
        ex_defs)
  have e: "map fst (report (snd (job_runner_body first_possibility (process ?F ?u job_a) ?u)))
             = map fst (report ?u) @ [Unchanged]"
    by (simp add: process_def job_runner_body_def load_def save_def report_verb_def Let_def
        ex_defs)
  show ?thesis
    using s0 n e unchanged_with_zero_tries_saves_nothing [OF s0 n] unchanged_with_zero_tries_saves_nothing [OF s0 e]
    unfolding s r by simp
qed

subsection \<open>What a pool leaves untouched, and when it returns\<close>

lemma body_frame:
  "pools (snd (job_runner_body gcm js v)) = pools v
   \<and> urlwatch_config (snd (job_runner_body gcm js v)) = urlwatch_config v
   \<and> jobs (snd (job_runner_body gcm js v)) = jobs v
   \<and> cache_storage (snd (job_runner_body gcm js v)) = cache_storage v"
  by (simp add: job_runner_body_def save_def report_verb_def Let_def
      split: option.splits sum.splits)

lemma loop_frame:
  "pools (snd (job_runner_loop gcm jss v)) = pools v
   \<and> urlwatch_config (snd (job_runner_loop gcm jss v)) = urlwatch_config v
   \<and> jobs (snd (job_runner_loop gcm jss v)) = jobs v
   \<and> cache_storage (snd (job_runner_loop gcm jss v)) = cache_storage v"
proof (induction jss arbitrary: v)
  case Nil
  show ?case by simp
next
  case (Cons js rest)
  obtain e v' where b: "job_runner_body gcm js v = (e, v')"
    by (cases "job_runner_body gcm js v")
  have f: "pools v' = pools v \<and> urlwatch_config v' = urlwatch_config v
      \<and> jobs v' = jobs v \<and> cache_storage v' = cache_storage v"
    using body_frame [of gcm js v] b by simp
  show ?case
  proof (cases e)
    case None
    then show ?thesis
      using b f Cons.IH [of v'] by simp
  next
    case (Some x)
    then show ?thesis
      using b f by simp
  qed
qed

lemma job_runner_frame:
  "urlwatch_config (snd (job_runner E js mw u)) = urlwatch_config u
   \<and> jobs (snd (job_runner E js mw u)) = jobs u
   \<and> cache_storage (snd (job_runner E js mw u)) = cache_storage u"
  by (simp add: job_runner_def loop_frame)

lemma job_runner_invalid:
  "\<not> valid_max_workers mw \<Longrightarrow>
   job_runner E js mw u = (Some (ValueError ''max_workers must be greater than 0''), u)"
  by (simp add: job_runner_def)

lemma job_runner_pools_valid:
  "valid_max_workers mw \<Longrightarrow> pools (snd (job_runner E js mw u)) = pools u @ [(mw, js)]"
  by (simp add: job_runner_def loop_frame)

lemma job_runner_pools:
  assumes "fst (job_runner E js mw u) = None"
  shows "pools (snd (job_runner E js mw u)) = pools u @ [(mw, js)]"
proof (cases "valid_max_workers mw")
  case True
  then show ?thesis
    by (rule job_runner_pools_valid)
next
  case False
  then have "fst (job_runner E js mw u) \<noteq> None"
    by (simp add: job_runner_invalid)
  then show ?thesis
    using assms by simp
qed






subsection \<open>Selection of jobs\<close>

lemma check_joblist_None:
  "check_joblist n l = None \<longleftrightarrow>
     (\<forall>idx \<in> set l. - int n \<le> idx \<and> idx \<le> - 1 \<or> 1 \<le> idx \<and> idx \<le> int n)"
  by (induction l) auto

lemma check_joblist_Some:
  "check_joblist n l = Some e \<Longrightarrow>
     \<exists>idx \<in> set l. e = IndexError idx n
        \<and> \<not> (- int n \<le> idx \<and> idx \<le> - 1 \<or> 1 \<le> idx \<and> idx \<le> int n)"
  by (induction l) (auto split: if_splits)

lemma extract_jobs_frame:
  assumes "extract_jobs E u = Inr (u', js)"
  shows "pools u' = pools u \<and> saved u' = saved u \<and> report u' = report u
       \<and> jobs u' = jobs u \<and> cache_storage u' = cache_storage u
       \<and> max_workers (urlwatch_config u') = max_workers (urlwatch_config u)"
  using assms
  by (auto simp: extract_jobs_def Let_def split: option.splits if_splits)

lemma extract_jobs_error:
  assumes "extract_jobs E u = Inl e"
  shows "\<exists>l. joblist (urlwatch_config u) = Some l
     \<and> (\<exists>idx \<in> set l. e = IndexError idx (length (jobs u))
          \<and> \<not> (- int (length (jobs u)) \<le> idx \<and> idx \<le> - 1
                \<or> 1 \<le> idx \<and> idx \<le> int (length (jobs u))))"
proof (cases "joblist (urlwatch_config u)")
  case None
  then show ?thesis
    using assms by (simp add: extract_jobs_def)
next
  case (Some l)
  then have "check_joblist (length (jobs u)) l = Some e"
    using assms by (simp add: extract_jobs_def Let_def split: if_splits option.splits)
  then show ?thesis
    using Some check_joblist_Some [of "length (jobs u)" l e] by simp
qed

lemma positive_index_listed:
  assumes "\<forall>i \<in> set l. - int n \<le> i \<and> i \<le> - 1 \<or> 1 \<le> i \<and> i \<le> int n"
    and "1 \<le> p" and "p \<le> int n"
  shows "p \<in> set (map (\<lambda>jn. if jn > 0 then jn else int n + jn + 1) l)
           \<longleftrightarrow> p \<in> set l \<or> p - int n - 1 \<in> set l"
proof
  assume "p \<in> set (map (\<lambda>jn. if jn > 0 then jn else int n + jn + 1) l)"
  then obtain jn where jn: "jn \<in> set l" and p: "p = (if jn > 0 then jn else int n + jn + 1)"
    by auto
  show "p \<in> set l \<or> p - int n - 1 \<in> set l"
  proof (cases "jn > 0")
    case True
    then show ?thesis using jn p by simp
  next
    case False
    then have "p - int n - 1 = jn" using p by simp
    then show ?thesis using jn by simp
  qed
next
  assume "p \<in> set l \<or> p - int n - 1 \<in> set l"
  then show "p \<in> set (map (\<lambda>jn. if jn > 0 then jn else int n + jn + 1) l)"
  proof
    assume a: "p \<in> set l"
    then have "(\<lambda>jn. if jn > 0 then jn else int n + jn + 1) p
        \<in> (\<lambda>jn. if jn > 0 then jn else int n + jn + 1) ` set l"
      by (rule imageI)
    then show ?thesis
      using assms(2) by simp
  next
    assume a: "p - int n - 1 \<in> set l"
    then have "(\<lambda>jn. if jn > 0 then jn else int n + jn + 1) (p - int n - 1)
        \<in> (\<lambda>jn. if jn > 0 then jn else int n + jn + 1) ` set l"
      by (rule imageI)
    then show ?thesis
      using assms(3) by simp
  qed
qed

text \<open>
  Claim C6. The job list has \<open>n\<close> jobs and the configuration has a job-index filter
  \<open>l\<close>. If an index of \<open>l\<close> lies outside \<open>[-n, -1] \<union> [1, n]\<close>, the run raises
  \<^verbatim>\<open>IndexError\<close> for an index of \<open>l\<close> that is out of range, and the state is the one
  the run started from: no pool was created, no save was staged, nothing was reported.
  If the filter is not empty, every index is in range and the jobs carry their positions
  \<open>1, \<dots>, n\<close> as \<^verbatim>\<open>index_number\<close>, the jobs kept are those whose index \<open>p\<close> is listed
  either as \<open>p\<close> or as the negative index \<open>p - n - 1\<close>; so a listed \<open>-k\<close> selects the
  \<open>k\<close>-th job from the end of the list.
\<close>

theorem out_of_range_joblist_raises_before_any_job:
  assumes "joblist (urlwatch_config u) = Some l"
  shows "let n = length (jobs u);
             in_range = (\<lambda>idx. - int n \<le> idx \<and> idx \<le> - 1 \<or> 1 \<le> idx \<and> idx \<le> int n);
             positive = map (\<lambda>jn. if jn > 0 then jn else int n + jn + 1) l;
             selected = map (with_defaults E)
                          (filter (\<lambda>j. index_number j \<in> set l
                                        \<or> index_number j - int n - 1 \<in> set l) (jobs u))
         in (idx \<in> set l \<and> \<not> in_range idx \<longrightarrow>
               (\<exists>bad \<in> set l. \<not> in_range bad
                  \<and> run_jobs E u = (Some (IndexError bad n), u)))
          \<and> (l \<noteq> [] \<and> (\<forall>i \<in> set l. in_range i)
                \<and> map index_number (jobs u) = map int [1..<Suc n] \<longrightarrow>
               extract_jobs E u =
                 Inr (u\<lparr>urlwatch_config := (urlwatch_config u)\<lparr>joblist := Some positive\<rparr>\<rparr>,
                      selected)
               \<and> (1 \<le> k \<and> k \<le> n \<and> - int k \<in> set l \<longrightarrow>
                     with_defaults E (jobs u ! (n - k)) \<in> set selected))"
proof -
  let ?n = "length (jobs u)"
  let ?in_range = "\<lambda>idx. - int ?n \<le> idx \<and> idx \<le> - 1 \<or> 1 \<le> idx \<and> idx \<le> int ?n"
  let ?positive = "map (\<lambda>jn. if jn > 0 then jn else int ?n + jn + 1) l"
  let ?keep = "\<lambda>j. index_number j \<in> set l \<or> index_number j - int ?n - 1 \<in> set l"
  let ?selected = "map (with_defaults E) (filter ?keep (jobs u))"
  have bad: "\<exists>bad \<in> set l. \<not> ?in_range bad \<and> run_jobs E u = (Some (IndexError bad ?n), u)"
    if "idx \<in> set l" "\<not> ?in_range idx"
  proof -
    have ne: "l \<noteq> []"
      using that(1) by auto
    have "check_joblist ?n l \<noteq> None"
      using that check_joblist_None [of ?n l] by blast
    then obtain e where e: "check_joblist ?n l = Some e"
      by auto
    then obtain b where b: "b \<in> set l" "e = IndexError b ?n" "\<not> ?in_range b"
      using check_joblist_Some [OF e] by blast
    have "run_jobs E u = (Some e, u)"
      using assms ne e by (simp add: run_jobs_def extract_jobs_def)
    then show ?thesis
      using b by blast
  qed
  have good: "extract_jobs E u =
        Inr (u\<lparr>urlwatch_config := (urlwatch_config u)\<lparr>joblist := Some ?positive\<rparr>\<rparr>, ?selected)
      \<and> (1 \<le> k \<and> k \<le> ?n \<and> - int k \<in> set l \<longrightarrow>
            with_defaults E (jobs u ! (?n - k)) \<in> set ?selected)"
    if ne: "l \<noteq> []" and ok: "\<forall>i \<in> set l. ?in_range i"
      and pos: "map index_number (jobs u) = map int [1..<Suc ?n]"
  proof -
    have c: "check_joblist ?n l = None"
      using ok check_joblist_None [of ?n l] by blast
    have nth: "index_number (jobs u ! i) = int i + 1" if "i < ?n" for i
    proof -
      have "index_number (jobs u ! i) = map index_number (jobs u) ! i"
        using that by (simp only: nth_map)
      also have "\<dots> = map int [1..<Suc ?n] ! i"
        by (simp only: pos)
      also have "\<dots> = int ([1..<Suc ?n] ! i)"
        using that by (simp only: nth_map length_upt diff_Suc_1)
      also have "\<dots> = int (1 + i)"
        using that by (simp only: nth_upt plus_1_eq_Suc Suc_less_eq)
      finally show ?thesis
        by simp
    qed
    have rng: "1 \<le> index_number j \<and> index_number j \<le> int ?n"
      if jin: "j \<in> set (jobs u)" for j
    proof -
      obtain i where "i < ?n" "jobs u ! i = j"
        using jin by (auto simp: in_set_conv_nth)
      then show ?thesis
        using nth [of i] by auto
    qed
    have "filter (\<lambda>j. index_number j \<in> set ?positive) (jobs u) = filter ?keep (jobs u)"
    proof (rule filter_cong [OF refl])
      fix j
      assume "j \<in> set (jobs u)"
      then have "1 \<le> index_number j" "index_number j \<le> int ?n"
        using rng by simp_all
      then show "(index_number j \<in> set ?positive) = ?keep j"
        using positive_index_listed [OF ok] by blast
    qed
    then have ex: "extract_jobs E u =
        Inr (u\<lparr>urlwatch_config := (urlwatch_config u)\<lparr>joblist := Some ?positive\<rparr>\<rparr>, ?selected)"
      using assms ne c by (simp add: extract_jobs_def Let_def)
    have neg: "with_defaults E (jobs u ! (?n - k)) \<in> set ?selected"
      if k: "1 \<le> k" "k \<le> ?n" "- int k \<in> set l"
    proof -
      have lt: "?n - k < ?n"
        using k by simp
      have "index_number (jobs u ! (?n - k)) = int (?n - k) + 1"
        using nth [OF lt] .
      then have "index_number (jobs u ! (?n - k)) - int ?n - 1 = - int k"
        using k by simp
      then have "?keep (jobs u ! (?n - k))"
        using k(3) by simp
      moreover have "jobs u ! (?n - k) \<in> set (jobs u)"
        using lt by simp
      ultimately show ?thesis
        by simp
    qed
    show ?thesis
    proof (intro conjI impI)
      show "extract_jobs E u =
          Inr (u\<lparr>urlwatch_config := (urlwatch_config u)\<lparr>joblist := Some ?positive\<rparr>\<rparr>, ?selected)"
        by (rule ex)
    next
      assume "1 \<le> k \<and> k \<le> ?n \<and> - int k \<in> set l"
      then show "with_defaults E (jobs u ! (?n - k)) \<in> set ?selected"
        using neg by simp
    qed
  qed
  show ?thesis
    unfolding Let_def
  proof (rule conjI)
    show "idx \<in> set l \<and> \<not> ?in_range idx \<longrightarrow>
        (\<exists>bad \<in> set l. \<not> ?in_range bad \<and> run_jobs E u = (Some (IndexError bad ?n), u))"
    proof (rule impI)
      assume a: "idx \<in> set l \<and> \<not> ?in_range idx"
      have a1: "idx \<in> set l" and a2: "\<not> ?in_range idx"
        using a by simp_all
      show "\<exists>bad \<in> set l. \<not> ?in_range bad \<and> run_jobs E u = (Some (IndexError bad ?n), u)"
        using a1 a2 by (rule bad)
    qed
  next
    show "l \<noteq> [] \<and> (\<forall>i \<in> set l. ?in_range i)
        \<and> map index_number (jobs u) = map int [1..<Suc ?n] \<longrightarrow>
        extract_jobs E u =
          Inr (u\<lparr>urlwatch_config := (urlwatch_config u)\<lparr>joblist := Some ?positive\<rparr>\<rparr>, ?selected)
        \<and> (1 \<le> k \<and> k \<le> ?n \<and> - int k \<in> set l \<longrightarrow>
              with_defaults E (jobs u ! (?n - k)) \<in> set ?selected)"
    proof (rule impI)
      assume a: "l \<noteq> [] \<and> (\<forall>i \<in> set l. ?in_range i)
        \<and> map index_number (jobs u) = map int [1..<Suc ?n]"
      have a1: "l \<noteq> []" and a2: "\<forall>i \<in> set l. ?in_range i"
        and a3: "map index_number (jobs u) = map int [1..<Suc ?n]"
        using a by simp_all
      show "extract_jobs E u =
          Inr (u\<lparr>urlwatch_config := (urlwatch_config u)\<lparr>joblist := Some ?positive\<rparr>\<rparr>, ?selected)
        \<and> (1 \<le> k \<and> k \<le> ?n \<and> - int k \<in> set l \<longrightarrow>
              with_defaults E (jobs u ! (?n - k)) \<in> set ?selected)"
        using a1 a2 a3 by (rule good)
    qed
  qed
qed

text \<open>The theorem at the filter \<open>[999]\<close> over one job, which raises and leaves the state
  as it was, and at the filter \<open>[-1]\<close> over two jobs, which selects the last one.\<close>

theorem out_of_range_joblist_raises_before_any_job_witness:
  "joblist (urlwatch_config (fresh_run [job_a] \<lparr>joblist = Some [999], max_workers = None\<rparr> store_x))
     = Some [999]
   \<and> run_jobs (fixed_env (Fetched ''X'' 300 ''e3'') PsutilError)
        (fresh_run [job_a] \<lparr>joblist = Some [999], max_workers = None\<rparr> store_x)
       = (Some (IndexError 999 1),
          fresh_run [job_a] \<lparr>joblist = Some [999], max_workers = None\<rparr> store_x)
   \<and> map index_number [job_a, job_b] = [1, 2]
   \<and> extract_jobs (fixed_env (Fetched ''X'' 300 ''e3'') PsutilError)
        (fresh_run [job_a, job_b] \<lparr>joblist = Some [- 1], max_workers = None\<rparr> store_x)
       = Inr (fresh_run [job_a, job_b] \<lparr>joblist = Some [2], max_workers = None\<rparr> store_x,
              [job_b])
   \<and> [job_a, job_b] ! (2 - 1) = job_b"
proof -
  let ?E = "fixed_env (Fetched ''X'' 300 ''e3'') PsutilError"
  let ?u1 = "fresh_run [job_a] \<lparr>joblist = Some [999], max_workers = None\<rparr> store_x"
  let ?u2 = "fresh_run [job_a, job_b] \<lparr>joblist = Some [- 1], max_workers = None\<rparr> store_x"
  have h1: "joblist (urlwatch_config ?u1) = Some [999]"
    and h2: "joblist (urlwatch_config ?u2) = Some [- 1]"
    by (simp_all add: fresh_run_def)
  show ?thesis
    using out_of_range_joblist_raises_before_any_job [OF h1, where idx = 999 and E = ?E and k = 1]
      out_of_range_joblist_raises_before_any_job [OF h2, where idx = 999 and E = ?E and k = 1]
    by (simp add: Let_def ex_defs)
qed

subsection \<open>The two phases\<close>

lemma run_phases_after_first:
  assumes "fst (if filter (\<lambda>j. \<not> is_browser j) js = [] then (None, u)
                else job_runner E (filter (\<lambda>j. \<not> is_browser j) js)
                       (max_workers (urlwatch_config u)) u) = None"
  shows "run_phases E js u =
     (let u1 = snd (if filter (\<lambda>j. \<not> is_browser j) js = [] then (None, u)
                    else job_runner E (filter (\<lambda>j. \<not> is_browser j) js)
                           (max_workers (urlwatch_config u)) u)
      in if filter is_browser js = [] then (None, u1)
         else (case get_virt_mem (psutil_module E) of
                 Inl e \<Rightarrow> (Some e, u1)
               | Inr virt_mem \<Rightarrow>
                   job_runner E (filter is_browser js)
                     (Some (browser_max_workers (max_workers (urlwatch_config u1))
                              virt_mem (cpu_count E)))
                     u1))"
proof (cases "filter (\<lambda>j. \<not> is_browser j) js = []")
  case True
  then show ?thesis
    by (simp add: run_phases_def Let_def)
next
  case False
  obtain e u1 where r: "job_runner E (filter (\<lambda>j. \<not> is_browser j) js)
                          (max_workers (urlwatch_config u)) u = (e, u1)"
    by (cases "job_runner E (filter (\<lambda>j. \<not> is_browser j) js) (max_workers (urlwatch_config u)) u")
  have "e = None"
    using assms False r by simp
  then show ?thesis
    using False r by (simp add: run_phases_def Let_def)
qed

lemma run_phases_first_raises:
  assumes "fst (if filter (\<lambda>j. \<not> is_browser j) js = [] then (None, u)
                else job_runner E (filter (\<lambda>j. \<not> is_browser j) js)
                       (max_workers (urlwatch_config u)) u) = Some e"
  shows "fst (run_phases E js u) = Some e"
proof (cases "filter (\<lambda>j. \<not> is_browser j) js = []")
  case True
  then show ?thesis
    using assms by simp
next
  case False
  obtain e' u1 where r: "job_runner E (filter (\<lambda>j. \<not> is_browser j) js)
                          (max_workers (urlwatch_config u)) u = (e', u1)"
    by (cases "job_runner E (filter (\<lambda>j. \<not> is_browser j) js) (max_workers (urlwatch_config u)) u")
  have "e' = Some e"
    using assms False r by simp
  then show ?thesis
    using False r by (simp add: run_phases_def Let_def)
qed

lemma run_jobs_extracted:
  "extract_jobs E u = Inr (u', js) \<Longrightarrow> run_jobs E u = run_phases E js u'"
  by (simp add: run_jobs_def)

text \<open>A configured \<^verbatim>\<open>max_workers\<close> of 0, or a negative one, with a job that needs no
  browser: the pool of the first phase raises \<^verbatim>\<open>ValueError\<close> and the run ends there, with
  no job run, whether \<^verbatim>\<open>psutil\<close> is there or not.\<close>

lemma non_positive_max_workers_raises_in_first_phase:
  "run_jobs (fixed_env (Fetched ''X'' 300 ''e3'') (PsutilMissing ''No module named psutil''))
       (fresh_run [job_a, job_b] \<lparr>joblist = None, max_workers = Some 0\<rparr> store_x)
     = (Some (ValueError ''max_workers must be greater than 0''),
        fresh_run [job_a, job_b] \<lparr>joblist = None, max_workers = Some 0\<rparr> store_x)
   \<and> run_jobs (fixed_env (Fetched ''X'' 300 ''e3'') (PsutilMissing ''No module named psutil''))
       (fresh_run [job_a, job_b] \<lparr>joblist = None, max_workers = Some (- 3)\<rparr> store_x)
     = (Some (ValueError ''max_workers must be greater than 0''),
        fresh_run [job_a, job_b] \<lparr>joblist = None, max_workers = Some (- 3)\<rparr> store_x)"
  by (simp add: run_defs ex_defs)

text \<open>
  Claim C7. The run selected the jobs \<open>js\<close> and returned without an exception. Then the
  pools it created are, in this order, one over all jobs of \<open>js\<close> that need no browser,
  with the configured \<^verbatim>\<open>max_workers\<close>, and one over all browser jobs of \<open>js\<close>; a phase
  without jobs creates no pool. If there are browser jobs, the memory probe answered a
  byte count \<open>virt_mem\<close>, and with \<^verbatim>\<open>max_workers\<close> unset (or 0) the browser pool has
  \<open>min (max (virt_mem div 200000000) 1) cpus\<close> workers, where \<open>cpus\<close> is the count of
  logical CPUs, read as 1 when \<^verbatim>\<open>os.cpu_count()\<close> answers \<^verbatim>\<open>None\<close> or 0.
\<close>

theorem two_phases_and_browser_pool_size:
  assumes "extract_jobs E u = Inr (u', js)" and "fst (run_jobs E u) = None"
  shows "let nb = filter (\<lambda>j. \<not> is_browser j) js;
             b = filter is_browser js;
             configured = max_workers (urlwatch_config u);
             first = (if nb = [] then [] else [(configured, nb)])
         in (b = [] \<longrightarrow> pools (snd (run_jobs E u)) = pools u @ first)
          \<and> (b \<noteq> [] \<longrightarrow>
               (\<exists>virt_mem. get_virt_mem (psutil_module E) = Inr virt_mem
                  \<and> pools (snd (run_jobs E u)) =
                      pools u @ first
                        @ [(Some (browser_max_workers configured virt_mem (cpu_count E)), b)]
                  \<and> (configured = None \<or> configured = Some 0 \<longrightarrow>
                       browser_max_workers configured virt_mem (cpu_count E) =
                         min (max (virt_mem div 200000000) 1)
                             (case cpu_count E of None \<Rightarrow> 1
                              | Some c \<Rightarrow> if c = 0 then 1 else c))))"
proof -
  let ?nb = "filter (\<lambda>j. \<not> is_browser j) js"
  let ?b = "filter is_browser js"
  let ?cfg = "max_workers (urlwatch_config u)"
  let ?first = "if ?nb = [] then (None, u')
                else job_runner E ?nb (max_workers (urlwatch_config u')) u'"
  have r: "run_jobs E u = run_phases E js u'"
    using assms(1) by (rule run_jobs_extracted)
  have fr: "pools u' = pools u" and mw: "max_workers (urlwatch_config u') = ?cfg"
    using extract_jobs_frame [OF assms(1)] by simp_all
  have f: "fst ?first = None"
  proof (cases "fst ?first")
    case None
    then show ?thesis .
  next
    case (Some e)
    then have "fst (run_phases E js u') = Some e"
      by (rule run_phases_first_raises)
    then show ?thesis
      using assms(2) r by simp
  qed
  note ph = run_phases_after_first [OF f]
  have p1: "pools (snd ?first) = pools u @ (if ?nb = [] then [] else [(?cfg, ?nb)])"
  proof (cases "?nb = []")
    case True
    then show ?thesis
      using fr by simp
  next
    case False
    then have "fst (job_runner E ?nb ?cfg u') = None"
      using f mw by simp
    then have "pools (snd (job_runner E ?nb ?cfg u')) = pools u' @ [(?cfg, ?nb)]"
      by (rule job_runner_pools)
    then show ?thesis
      using False fr mw by simp
  qed
  have c1: "max_workers (urlwatch_config (snd ?first)) = ?cfg"
    using job_runner_frame [of E ?nb ?cfg u'] mw by simp
  have none: "pools (snd (run_jobs E u)) = pools u @ (if ?nb = [] then [] else [(?cfg, ?nb)])"
    if "?b = []"
    unfolding r ph Let_def using that p1 by simp
  have some: "\<exists>virt_mem. get_virt_mem (psutil_module E) = Inr virt_mem
      \<and> pools (snd (run_jobs E u)) =
          pools u @ (if ?nb = [] then [] else [(?cfg, ?nb)])
            @ [(Some (browser_max_workers ?cfg virt_mem (cpu_count E)), ?b)]"
    if nonempty: "?b \<noteq> []"
  proof (cases "get_virt_mem (psutil_module E)")
    case (Inl e)
    have "fst (run_phases E js u') = Some e"
      unfolding ph Let_def using nonempty Inl by simp
    then show ?thesis
      using assms(2) r by simp
  next
    case (Inr virt_mem)
    have second: "run_phases E js u' =
        job_runner E ?b (Some (browser_max_workers ?cfg virt_mem (cpu_count E))) (snd ?first)"
      unfolding ph Let_def using nonempty Inr c1 by simp
    then have "fst (job_runner E ?b (Some (browser_max_workers ?cfg virt_mem (cpu_count E)))
        (snd ?first)) = None"
      using assms(2) r by simp
    then have "pools (snd (job_runner E ?b
        (Some (browser_max_workers ?cfg virt_mem (cpu_count E))) (snd ?first))) =
        pools (snd ?first) @ [(Some (browser_max_workers ?cfg virt_mem (cpu_count E)), ?b)]"
      by (rule job_runner_pools)
    then have "pools (snd (run_jobs E u)) =
        pools (snd ?first) @ [(Some (browser_max_workers ?cfg virt_mem (cpu_count E)), ?b)]"
      using r second by simp
    then show ?thesis
      using Inr p1 by simp
  qed
  have formula: "browser_max_workers ?cfg virt_mem (cpu_count E) =
      min (max (virt_mem div 200000000) 1)
          (case cpu_count E of None \<Rightarrow> 1 | Some c \<Rightarrow> if c = 0 then 1 else c)"
    if "?cfg = None \<or> ?cfg = Some 0" for virt_mem
    using that by (auto simp: browser_max_workers_def Let_def)
  show ?thesis
    unfolding Let_def using none some formula by blast
qed

text \<open>The theorem at one job of each kind with 1 000 000 000 available bytes and 4 CPUs:
  the browser pool has \<open>min (max 5 1) 4 = 4\<close> workers; and at a run without browser
  job.\<close>

theorem two_phases_and_browser_pool_size_witness:
  "extract_jobs (fixed_env (Fetched ''X'' 300 ''e3'') (PsutilAvailable 1000000000))
       (fresh_run [job_a, job_b] no_options store_x)
     = Inr (fresh_run [job_a, job_b] no_options store_x, [job_a, job_b])
   \<and> fst (run_jobs (fixed_env (Fetched ''X'' 300 ''e3'') (PsutilAvailable 1000000000))
       (fresh_run [job_a, job_b] no_options store_x)) = None
   \<and> pools (snd (run_jobs (fixed_env (Fetched ''X'' 300 ''e3'') (PsutilAvailable 1000000000))
       (fresh_run [job_a, job_b] no_options store_x)))
     = [(None, [job_a]), (Some 4, [job_b])]
   \<and> pools (snd (run_jobs (fixed_env (Fetched ''X'' 300 ''e3'') (PsutilAvailable 1000000000))
       (fresh_run [job_a] no_options store_x)))
     = [(None, [job_a])]"
proof -
  let ?E = "fixed_env (Fetched ''X'' 300 ''e3'') (PsutilAvailable 1000000000)"
  let ?u = "fresh_run [job_a, job_b] no_options store_x"
  let ?v = "fresh_run [job_a] no_options store_x"
  have h1: "extract_jobs ?E ?u = Inr (?u, [job_a, job_b])"
    and g1: "extract_jobs ?E ?v = Inr (?v, [job_a])"
    by (simp_all add: extract_jobs_def ex_defs)
  have h2: "fst (run_jobs ?E ?u) = None" and g2: "fst (run_jobs ?E ?v) = None"
    by (simp_all add: run_defs ex_defs)
  show ?thesis
    using h1 h2 two_phases_and_browser_pool_size [OF h1 h2] two_phases_and_browser_pool_size [OF g1 g2]
    by (simp add: Let_def get_virt_mem_def browser_max_workers_def ex_defs)
qed





end
